theory Spec2Isabelle
  imports Complex_Main "HOL-Library.Stream"
begin

section \<open>The seasonal dataset generator of the solar dashboard\<close>

text \<open>
  The development embeds the data generator of \<^verbatim>\<open>streamlit_solar_dashboard.py\<close>:
  the three scoring functions \<^verbatim>\<open>calc_kwh_summer\<close>, \<^verbatim>\<open>calc_kwh_monsoon\<close>,
  \<^verbatim>\<open>calc_kwh_winter\<close>, the per-season generator \<^verbatim>\<open>generate_seasonal_data\<close>, the
  combining \<^verbatim>\<open>generate_all_seasons_data\<close> and the two module-level tables.

  Conventions of the embedding:
  \<^item> Python floats are idealised as reals, so the arithmetic of the formulas is exact.
    Where the exact score lies on a tie of the second decimal, the float program may store
    the neighbouring 2-decimal number; what is said about the numbers stored in a row is
    therefore said up to a margin, \<open>0.0051\<close> for half a unit of the second decimal;
  \<^item> \<^verbatim>\<open>round(x, 2)\<close>, applied to numpy's floats, is rounding of \<open>100 * x\<close> to the
    nearest integer, ties to the even one, divided by \<open>100\<close>;
  \<^item> the process-wide random source of numpy is an explicit stream of unit samples,
    threaded through every call; \<^verbatim>\<open>np.random.uniform(low, high)\<close> consumes one sample
    \<open>u\<close> and yields \<open>low + (high - low) * u\<close>, which is what numpy computes, without
    comparing \<open>low\<close> and \<open>high\<close>;
  \<^item> a raised exception is the \<open>Inl\<close> of a sum type, and the data collected so far
    is lost with it;
  \<^item> a dict read in order (\<^verbatim>\<open>.items()\<close>) is an association list, a dict only
    subscripted is a map;
  \<^item> the memoising decorator \<^verbatim>\<open>st.cache_data\<close> is left out: every call modelled
    here is one that really runs the body.
\<close>

subsection \<open>Scoring functions\<close>

type_synonym calc = "real \<Rightarrow> real \<Rightarrow> real \<Rightarrow> real \<Rightarrow> real \<Rightarrow> real"

definition calc_kwh_summer :: calc where
  "calc_kwh_summer irradiance humidity wind_speed ambient_temp tilt_angle =
     0.25 * irradiance
     - 0.05 * humidity
     + 0.02 * wind_speed
     + 0.1 * ambient_temp
     - 0.03 * \<bar>tilt_angle - 30\<bar>"

definition calc_kwh_monsoon :: calc where
  "calc_kwh_monsoon irradiance humidity wind_speed ambient_temp tilt_angle =
     0.15 * irradiance
     - 0.1 * humidity
     + 0.01 * wind_speed
     + 0.05 * ambient_temp
     - 0.04 * \<bar>tilt_angle - 30\<bar>"

definition calc_kwh_winter :: calc where
  "calc_kwh_winter irradiance humidity wind_speed ambient_temp tilt_angle =
     0.18 * irradiance
     - 0.03 * humidity
     + 0.015 * wind_speed
     + 0.08 * ambient_temp
     - 0.02 * \<bar>tilt_angle - 30\<bar>"

subsection \<open>Errors, rounding and sampling\<close>

datatype error = KeyError string | UnboundLocalError string

fun bind_err :: "error + 'a \<Rightarrow> ('a \<Rightarrow> error + 'b) \<Rightarrow> error + 'b" where
  "bind_err (Inl e) f = Inl e"
| "bind_err (Inr v) f = f v"

text \<open>Subscripting a dict with a string key: a missing key raises \<^verbatim>\<open>KeyError\<close>.\<close>

definition subscript :: "(string \<rightharpoonup> 'v) \<Rightarrow> string \<Rightarrow> error + 'v" where
  "subscript d k = (case d k of None \<Rightarrow> Inl (KeyError k) | Some v \<Rightarrow> Inr v)"

definition round_half_even :: "real \<Rightarrow> int" where
  "round_half_even y =
     (let f = \<lfloor>y\<rfloor>; r = y - of_int f
      in if r < 1 / 2 then f
         else if 1 / 2 < r then f + 1
         else if even f then f else f + 1)"

text \<open>\<^verbatim>\<open>round(x, ndigits)\<close> for a non-negative number of digits.\<close>

definition py_round :: "real \<Rightarrow> nat \<Rightarrow> real" where
  "py_round x ndigits = of_int (round_half_even (x * 10 ^ ndigits)) / 10 ^ ndigits"

type_synonym rng = "real stream"

definition uniform :: "real \<Rightarrow> real \<Rightarrow> rng \<Rightarrow> real \<times> rng" where
  "uniform low high g = (low + (high - low) * shd g, stl g)"

subsection \<open>Observations and the generator\<close>

type_synonym ranges = "string \<rightharpoonup> real \<times> real"

type_synonym calendar = "(string \<times> int) list"

record observation =
  irradiance :: real
  humidity :: real
  wind_speed :: real
  ambient_temperature :: real
  tilt_angle :: real
  kwh :: real
  season :: string
  month :: string

text \<open>
  The \<^verbatim>\<open>if\<close>/\<^verbatim>\<open>elif\<close> chain that selects the scoring function. It has no \<^verbatim>\<open>else\<close>:
  for any other string \<^verbatim>\<open>calc_func\<close> stays unassigned, which is \<open>None\<close> here.
\<close>

definition select_calc_func :: "string \<Rightarrow> calc option" where
  "select_calc_func s =
     (if s = ''summer'' then Some calc_kwh_summer
      else if s = ''monsoon'' then Some calc_kwh_monsoon
      else if s = ''winter'' then Some calc_kwh_winter
      else None)"

text \<open>Reading the local \<^verbatim>\<open>calc_func\<close>: unassigned, it raises \<^verbatim>\<open>UnboundLocalError\<close>.\<close>

definition read_calc_func :: "calc option \<Rightarrow> error + calc" where
  "read_calc_func calc_func =
     (case calc_func of None \<Rightarrow> Inl (UnboundLocalError ''calc_func'') | Some f \<Rightarrow> Inr f)"

text \<open>
  One draw \<^verbatim>\<open>np.random.uniform(*season_ranges[name])\<close>: the subscript is evaluated
  first, then the sample is taken.
\<close>

definition sample :: "ranges \<Rightarrow> string \<Rightarrow> rng \<Rightarrow> error + (real \<times> rng)" where
  "sample season_ranges name g =
     bind_err (subscript season_ranges name) (\<lambda>(low, high). Inr (uniform low high g))"

text \<open>
  The body of the inner loop: five draws in the order of the source, the score of the
  raw draws, and the row appended to \<^verbatim>\<open>data\<close> with every number rounded to 2 decimals.
\<close>

definition loop_body ::
  "ranges \<Rightarrow> calc option \<Rightarrow> string \<Rightarrow> string \<Rightarrow> observation list \<times> rng
    \<Rightarrow> error + (observation list \<times> rng)" where
  "loop_body season_ranges calc_func s m st =
     (case st of (data, g0) \<Rightarrow>
        bind_err (sample season_ranges ''irradiance'' g0) (\<lambda>(irr, g1).
        bind_err (sample season_ranges ''humidity'' g1) (\<lambda>(hum, g2).
        bind_err (sample season_ranges ''wind_speed'' g2) (\<lambda>(wind, g3).
        bind_err (sample season_ranges ''ambient_temperature'' g3) (\<lambda>(temp, g4).
        bind_err (sample season_ranges ''tilt_angle'' g4) (\<lambda>(tilt, g5).
        bind_err (read_calc_func calc_func) (\<lambda>f.
          let kwh' = f irr hum wind temp tilt
          in Inr (data @
                  [\<lparr>irradiance = py_round irr 2,
                    humidity = py_round hum 2,
                    wind_speed = py_round wind 2,
                    ambient_temperature = py_round temp 2,
                    tilt_angle = py_round tilt 2,
                    kwh = py_round kwh' 2,
                    season = s,
                    month = m\<rparr>], g5))))))))"

text \<open>\<^verbatim>\<open>for _ in range(days)\<close>, with \<open>n\<close> the number of iterations.\<close>

fun days_loop ::
  "nat \<Rightarrow> ranges \<Rightarrow> calc option \<Rightarrow> string \<Rightarrow> string \<Rightarrow> observation list \<times> rng
    \<Rightarrow> error + (observation list \<times> rng)" where
  "days_loop 0 season_ranges calc_func s m st = Inr st"
| "days_loop (Suc n) season_ranges calc_func s m st =
     bind_err (loop_body season_ranges calc_func s m st)
       (days_loop n season_ranges calc_func s m)"

text \<open>
  \<^verbatim>\<open>for month, days in season_months.items()\<close>. \<^verbatim>\<open>range(days)\<close> is empty for
  \<open>days \<le> 0\<close>, so the inner loop runs \<open>nat days\<close> times.
\<close>

fun months_loop ::
  "calendar \<Rightarrow> ranges \<Rightarrow> calc option \<Rightarrow> string \<Rightarrow> observation list \<times> rng
    \<Rightarrow> error + (observation list \<times> rng)" where
  "months_loop [] season_ranges calc_func s st = Inr st"
| "months_loop ((m, days) # rest) season_ranges calc_func s st =
     bind_err (days_loop (nat days) season_ranges calc_func s m st)
       (months_loop rest season_ranges calc_func s)"

definition generate_seasonal_data ::
  "string \<Rightarrow> (string \<rightharpoonup> ranges) \<Rightarrow> (string \<rightharpoonup> calendar) \<Rightarrow> rng
    \<Rightarrow> error + (observation list \<times> rng)" where
  "generate_seasonal_data s feature_ranges months_days g =
     bind_err (subscript feature_ranges s) (\<lambda>season_ranges.
     bind_err (subscript months_days s) (\<lambda>season_months.
       months_loop season_months season_ranges (select_calc_func s) s ([], g)))"

subsection \<open>The module's tables and the combined dataset\<close>

definition feature_ranges :: "string \<rightharpoonup> ranges" where
  "feature_ranges =
     [''summer'' \<mapsto>
        [''irradiance'' \<mapsto> (600, 1000),
         ''humidity'' \<mapsto> (10, 50),
         ''wind_speed'' \<mapsto> (0, 5),
         ''ambient_temperature'' \<mapsto> (30, 45),
         ''tilt_angle'' \<mapsto> (10, 40)],
      ''monsoon'' \<mapsto>
        [''irradiance'' \<mapsto> (100, 600),
         ''humidity'' \<mapsto> (70, 100),
         ''wind_speed'' \<mapsto> (2, 8),
         ''ambient_temperature'' \<mapsto> (20, 35),
         ''tilt_angle'' \<mapsto> (10, 40)],
      ''winter'' \<mapsto>
        [''irradiance'' \<mapsto> (300, 700),
         ''humidity'' \<mapsto> (30, 70),
         ''wind_speed'' \<mapsto> (1, 6),
         ''ambient_temperature'' \<mapsto> (5, 20),
         ''tilt_angle'' \<mapsto> (10, 40)]]"

definition season_months_days :: "string \<rightharpoonup> calendar" where
  "season_months_days =
     [''summer'' \<mapsto>
        [(''March'', 31), (''April'', 30), (''May'', 31), (''June'', 30)],
      ''monsoon'' \<mapsto>
        [(''July'', 31), (''August'', 31), (''September'', 30), (''October'', 31)],
      ''winter'' \<mapsto>
        [(''November'', 30), (''December'', 31), (''January'', 31), (''February'', 28)]]"

text \<open>
  \<^verbatim>\<open>for season in ['summer', 'monsoon', 'winter']\<close>: each season's table is appended
  to \<^verbatim>\<open>all_data\<close>; the random source goes from one call to the next.
\<close>

fun seasons_loop ::
  "string list \<Rightarrow> observation list list \<times> rng \<Rightarrow> error + (observation list list \<times> rng)" where
  "seasons_loop [] st = Inr st"
| "seasons_loop (s # rest) st =
     (case st of (all_data, g) \<Rightarrow>
        bind_err (generate_seasonal_data s feature_ranges season_months_days g)
          (\<lambda>(season_df, g'). seasons_loop rest (all_data @ [season_df], g')))"

text \<open>\<^verbatim>\<open>pd.concat(all_data, ignore_index=True)\<close> puts the tables one after the other.\<close>

definition generate_all_seasons_data :: "rng \<Rightarrow> error + (observation list \<times> rng)" where
  "generate_all_seasons_data g =
     bind_err (seasons_loop [''summer'', ''monsoon'', ''winter''] ([], g))
       (\<lambda>(all_data, g'). Inr (concat all_data, g'))"

subsection \<open>Auxiliary notions for the statements\<close>

text \<open>
  The five keys read from a season's range table, and the tables that declare all of them.
\<close>

definition features :: "string list" where
  "features =
     [''irradiance'', ''humidity'', ''wind_speed'', ''ambient_temperature'', ''tilt_angle'']"

definition declares :: "ranges \<Rightarrow> bool" where
  "declares rs = list_all (\<lambda>name. rs name \<noteq> None) features"

text \<open>The raw value that a draw for \<open>name\<close> makes of the unit sample \<open>u\<close>.\<close>

definition draw :: "ranges \<Rightarrow> string \<Rightarrow> real \<Rightarrow> real" where
  "draw rs name u =
     (case rs name of None \<Rightarrow> 0 | Some (low, high) \<Rightarrow> low + (high - low) * u)"

text \<open>
  The row that one pass of the inner loop makes of the next five unit samples, when all
  five ranges are declared and \<open>f\<close> is the scoring function.
\<close>

definition row_of :: "ranges \<Rightarrow> calc \<Rightarrow> string \<Rightarrow> string \<Rightarrow> rng \<Rightarrow> observation" where
  "row_of rs f s m g =
     \<lparr>irradiance = py_round (draw rs ''irradiance'' (g !! 0)) 2,
      humidity = py_round (draw rs ''humidity'' (g !! 1)) 2,
      wind_speed = py_round (draw rs ''wind_speed'' (g !! 2)) 2,
      ambient_temperature = py_round (draw rs ''ambient_temperature'' (g !! 3)) 2,
      tilt_angle = py_round (draw rs ''tilt_angle'' (g !! 4)) 2,
      kwh = py_round (f (draw rs ''irradiance'' (g !! 0)) (draw rs ''humidity'' (g !! 1))
              (draw rs ''wind_speed'' (g !! 2)) (draw rs ''ambient_temperature'' (g !! 3))
              (draw rs ''tilt_angle'' (g !! 4))) 2,
      season = s, month = m\<rparr>"

definition month_rows ::
  "ranges \<Rightarrow> calc \<Rightarrow> string \<Rightarrow> string \<Rightarrow> nat \<Rightarrow> rng \<Rightarrow> observation list" where
  "month_rows rs f s m n g = map (\<lambda>i. row_of rs f s m (sdrop (5 * i) g)) [0..<n]"

fun season_rows :: "ranges \<Rightarrow> calc \<Rightarrow> string \<Rightarrow> calendar \<Rightarrow> rng \<Rightarrow> observation list" where
  "season_rows rs f s [] g = []"
| "season_rows rs f s ((m, days) # rest) g =
     month_rows rs f s m (nat days) g @ season_rows rs f s rest (sdrop (5 * nat days) g)"

text \<open>
  The number of passes of the inner loop over a calendar, and the sum of its day counts
  as written.
\<close>

definition total_days :: "calendar \<Rightarrow> nat" where
  "total_days cal = (\<Sum>(m, days)\<leftarrow>cal. nat days)"

definition day_sum :: "calendar \<Rightarrow> int" where
  "day_sum cal = sum_list (map snd cal)"

definition declared_days :: "string \<Rightarrow> nat" where
  "declared_days s = (case season_months_days s of None \<Rightarrow> 0 | Some cal \<Rightarrow> total_days cal)"

text \<open>
  A range table for the examples: the summer ranges of the source with the humidity range
  turned round.
\<close>

definition inverted_summer :: ranges where
  "inverted_summer =
     [''irradiance'' \<mapsto> (600, 1000), ''humidity'' \<mapsto> (50, 10), ''wind_speed'' \<mapsto> (0, 5),
      ''ambient_temperature'' \<mapsto> (30, 45), ''tilt_angle'' \<mapsto> (10, 40)]"

text \<open>
  The month label of every row of a season, in the order of the calendar.
\<close>

definition month_labels :: "calendar \<Rightarrow> string list" where
  "month_labels cal = concat (map (\<lambda>(m, days). replicate (nat days) m) cal)"


text \<open>
  The five feature entries of a row, by key.
\<close>

definition feature_value :: "observation \<Rightarrow> string \<rightharpoonup> real" where
  "feature_value ob =
     [''irradiance'' \<mapsto> irradiance ob,
      ''humidity'' \<mapsto> humidity ob,
      ''wind_speed'' \<mapsto> wind_speed ob,
      ''ambient_temperature'' \<mapsto> ambient_temperature ob,
      ''tilt_angle'' \<mapsto> tilt_angle ob]"



definition dim_monsoon :: ranges where
  "dim_monsoon =
     [''irradiance'' \<mapsto> (0, 10), ''humidity'' \<mapsto> (90, 100), ''wind_speed'' \<mapsto> (2, 8),
      ''ambient_temperature'' \<mapsto> (20, 36), ''tilt_angle'' \<mapsto> (10, 40)]"


definition mid_summer_row :: observation where
  "mid_summer_row =
     \<lparr>irradiance = 800, humidity = 30, wind_speed = 5 / 2, ambient_temperature = 75 / 2,
      tilt_angle = 25, kwh = 202.15, season = ''summer'', month = ''March''\<rparr>"

text \<open>
  A random source whose first two rows get the same five stored features from different
  raw irradiances, \<open>600.024\<close> and \<open>600.02\<close>.
\<close>

definition twin_example :: rng where
  "twin_example =
     [3 / 50000, 1 / 4000, 1 / 500, 0, 2 / 3, 1 / 20000, 1 / 4000, 1 / 500, 0, 2 / 3]
       @- sconst 0"

section \<open>Properties\<close>

subsection \<open>Rounding\<close>

lemma round_half_even_bounds: "\<bar>of_int (round_half_even y) - y\<bar> \<le> 1 / 2"
  unfolding round_half_even_def Let_def
  by (auto simp: abs_le_iff)

lemma py_round2_error: "\<bar>py_round x 2 - x\<bar> \<le> 1 / 200"
proof -
  have "\<bar>of_int (round_half_even (x * 100)) - x * 100\<bar> \<le> 1 / 2"
    by (rule round_half_even_bounds)
  then show ?thesis
    unfolding py_round_def by (simp add: abs_le_iff field_simps)
qed


subsection \<open>The loops on a complete range table\<close>

lemma sample_declared:
  "rs name = Some (low, high) \<Longrightarrow> sample rs name g = Inr (draw rs name (shd g), stl g)"
  by (simp add: sample_def subscript_def uniform_def draw_def)

lemma loop_body_ok:
  assumes "declares rs"
  shows "loop_body rs (Some f) s m (data, g) = Inr (data @ [row_of rs f s m g], sdrop 5 g)"
proof -
  from assms obtain a b c d e where
    "rs ''irradiance'' = Some a" "rs ''humidity'' = Some b" "rs ''wind_speed'' = Some c"
    "rs ''ambient_temperature'' = Some d" "rs ''tilt_angle'' = Some e"
    by (auto simp: declares_def features_def)
  then show ?thesis
    by (cases a, cases b, cases c, cases d, cases e)
       (simp add: loop_body_def sample_declared read_calc_func_def row_of_def eval_nat_numeral)
qed

lemma month_rows_Suc:
  "month_rows rs f s m (Suc n) g = row_of rs f s m g # month_rows rs f s m n (sdrop 5 g)"
proof -
  have "[0..<Suc n] = 0 # map Suc [0..<n]"
    by (simp add: upt_conv_Cons map_Suc_upt del: upt_Suc)
  then show ?thesis
    by (simp add: month_rows_def comp_def add.commute del: upt_Suc)
qed

lemma days_loop_ok:
  assumes "declares rs"
  shows "days_loop n rs (Some f) s m (data, g) =
           Inr (data @ month_rows rs f s m n g, sdrop (5 * n) g)"
proof (induction n arbitrary: data g)
  case 0
  show ?case by (simp add: month_rows_def)
next
  case (Suc n)
  show ?case
    by (simp add: loop_body_ok [OF assms] Suc.IH month_rows_Suc add.commute)
qed

lemma months_loop_ok:
  assumes "declares rs"
  shows "months_loop cal rs (Some f) s (data, g) =
           Inr (data @ season_rows rs f s cal g, sdrop (5 * total_days cal) g)"
proof (induction cal arbitrary: data g)
  case Nil
  show ?case by (simp add: total_days_def)
next
  case (Cons md cal)
  obtain m days where md: "md = (m, days)" by (cases md)
  show ?case
    unfolding md
    by (simp add: days_loop_ok [OF assms] Cons.IH total_days_def distrib_left add.commute)
qed

lemma length_season_rows: "length (season_rows rs f s cal g) = total_days cal"
  by (induction cal arbitrary: g) (auto simp: total_days_def month_rows_def)

lemma generate_ok:
  assumes "fr s = Some rs" "declares rs" "md s = Some cal" "select_calc_func s = Some f"
  shows "generate_seasonal_data s fr md g =
           Inr (season_rows rs f s cal g, sdrop (5 * total_days cal) g)"
  using assms(1,3,4) months_loop_ok [OF assms(2), of cal f s "[]" g]
  by (simp add: generate_seasonal_data_def subscript_def)

subsection \<open>The module's own tables\<close>

lemma source_season:
  assumes "s \<in> {''summer'', ''monsoon'', ''winter''}"
  shows "\<exists>rs cal f. feature_ranges s = Some rs \<and> declares rs
           \<and> season_months_days s = Some cal \<and> select_calc_func s = Some f"
  using assms
  by (auto simp: feature_ranges_def season_months_days_def select_calc_func_def
      declares_def features_def)

lemma generate_source:
  assumes "s \<in> {''summer'', ''monsoon'', ''winter''}"
  shows "\<exists>obs. generate_seasonal_data s feature_ranges season_months_days g =
           Inr (obs, sdrop (5 * declared_days s) g) \<and> length obs = declared_days s"
proof -
  from source_season [OF assms] obtain rs cal f where
    h: "feature_ranges s = Some rs" "declares rs" "season_months_days s = Some cal"
       "select_calc_func s = Some f" by blast
  show ?thesis
    using generate_ok [of feature_ranges s rs season_months_days cal f g] h
    by (simp add: declared_days_def length_season_rows)
qed

lemma declared_days_values:
  "declared_days ''summer'' = 122" "declared_days ''monsoon'' = 123"
  "declared_days ''winter'' = 120"
  by (simp_all add: declared_days_def season_months_days_def total_days_def)

subsection \<open>Failure of the loops, and entries that contribute nothing\<close>

lemma sample_missing: "rs name = None \<Longrightarrow> sample rs name g = Inl (KeyError name)"
  by (simp add: sample_def subscript_def)

lemma sample_cases:
  "(\<exists>v. sample rs name g = Inr v \<and> rs name \<noteq> None) \<or> (sample rs name g = Inl (KeyError name) \<and> rs name = None)"
  by (cases "rs name") (auto simp: sample_def subscript_def)

lemma loop_body_fail:
  assumes "\<not> (declares rs \<and> cf \<noteq> None)"
  shows "\<exists>e. loop_body rs cf s m st = Inl e \<and> (declares rs \<longrightarrow> e = UnboundLocalError ''calc_func'')"
proof (cases "declares rs")
  case True
  with assms have cf: "cf = None" by simp
  from True obtain a b c d e where
    "rs ''irradiance'' = Some a" "rs ''humidity'' = Some b" "rs ''wind_speed'' = Some c"
    "rs ''ambient_temperature'' = Some d" "rs ''tilt_angle'' = Some e"
    by (auto simp: declares_def features_def)
  then show ?thesis
    by (cases st, cases a, cases b, cases c, cases d, cases e)
       (simp add: loop_body_def sample_declared read_calc_func_def cf)
next
  case False
  obtain data g where st: "st = (data, g)" by (cases st)
  show ?thesis
  proof (cases "rs ''irradiance''")
    case None
    then show ?thesis using False by (simp add: loop_body_def st sample_missing)
  next
    case a: (Some a)
    show ?thesis
    proof (cases "rs ''humidity''")
      case None
      then show ?thesis using False a
        by (cases a) (simp add: loop_body_def st sample_missing sample_declared)
    next
      case b: (Some b)
      show ?thesis
      proof (cases "rs ''wind_speed''")
        case None
        then show ?thesis using False a b
          by (cases a, cases b) (simp add: loop_body_def st sample_missing sample_declared)
      next
        case c: (Some c)
        show ?thesis
        proof (cases "rs ''ambient_temperature''")
          case None
          then show ?thesis using False a b c
            by (cases a, cases b, cases c)
               (simp add: loop_body_def st sample_missing sample_declared)
        next
          case d: (Some d)
          have "rs ''tilt_angle'' = None"
            using False a b c d by (cases "rs ''tilt_angle''") (simp_all add: declares_def features_def)
          then show ?thesis using False a b c d
            by (cases a, cases b, cases c, cases d)
               (simp add: loop_body_def st sample_missing sample_declared)
        qed
      qed
    qed
  qed
qed

lemma bind_err_Inl_iff:
  "bind_err x f = Inl e \<longleftrightarrow> x = Inl e \<or> (\<exists>v. x = Inr v \<and> f v = Inl e)"
  by (cases x) auto

lemma sample_Inl: "sample rs name g = Inl e \<Longrightarrow> e = KeyError name"
  by (cases "rs name") (auto simp: sample_def subscript_def)

lemma loop_body_key_error:
  assumes "loop_body rs (Some f) s m st = Inl e"
  shows "\<exists>k. e = KeyError k"
  using assms
  by (cases st)
     (auto simp: loop_body_def bind_err_Inl_iff read_calc_func_def Let_def dest!: sample_Inl)

lemma days_loop_key_error:
  "days_loop n rs (Some f) s m st = Inl e \<Longrightarrow> \<exists>k. e = KeyError k"
proof (induction n arbitrary: st)
  case 0
  then show ?case by simp
next
  case (Suc n)
  then show ?case
    by (auto simp: bind_err_Inl_iff dest: loop_body_key_error)
qed

lemma months_loop_key_error:
  "months_loop cal rs (Some f) s st = Inl e \<Longrightarrow> \<exists>k. e = KeyError k"
proof (induction cal arbitrary: st)
  case Nil
  then show ?case by simp
next
  case (Cons md cal)
  then show ?case
    by (cases md) (auto simp: bind_err_Inl_iff dest: days_loop_key_error)
qed

lemma months_loop_zero:
  "total_days cal = 0 \<Longrightarrow> months_loop cal rs cf s st = Inr st"
  by (induction cal) (auto simp: total_days_def)

lemma months_loop_fail:
  assumes "\<not> (declares rs \<and> cf \<noteq> None)" "0 < total_days cal"
  shows "\<exists>e. months_loop cal rs cf s st = Inl e
           \<and> (declares rs \<longrightarrow> e = UnboundLocalError ''calc_func'')"
  using assms(2)
proof (induction cal)
  case Nil
  then show ?case by (simp add: total_days_def)
next
  case (Cons md cal)
  obtain m days where md: "md = (m, days)" by (cases md)
  show ?case
  proof (cases "nat days")
    case 0
    with Cons.prems have "0 < total_days cal" by (simp add: total_days_def md)
    with Cons.IH 0 show ?thesis by (simp add: md)
  next
    case (Suc n)
    from loop_body_fail [OF assms(1), of s m st] obtain e where
      "loop_body rs cf s m st = Inl e" "declares rs \<longrightarrow> e = UnboundLocalError ''calc_func''"
      by blast
    then show ?thesis by (simp add: md Suc)
  qed
qed

lemma months_loop_skip:
  "days \<le> 0 \<Longrightarrow>
     months_loop (c1 @ (m, days) # c2) rs cf s st = months_loop (c1 @ c2) rs cf s st"
proof (induction c1 arbitrary: st)
  case Nil
  then show ?case by simp
next
  case (Cons md c1)
  obtain m' d' where md: "md = (m', d')" by (cases md)
  have "\<And>x. bind_err x (months_loop (c1 @ (m, days) # c2) rs cf s)
            = bind_err x (months_loop (c1 @ c2) rs cf s)"
    using Cons by (metis bind_err.simps sum.exhaust) 
  then show ?case by (simp add: md)
qed

lemma generate_skip:
  assumes "md s = Some (c1 @ (m, days) # c2)" "days \<le> 0"
  shows "generate_seasonal_data s fr md g = generate_seasonal_data s fr (md(s \<mapsto> c1 @ c2)) g"
proof (cases "fr s")
  case None
  then show ?thesis by (simp add: generate_seasonal_data_def subscript_def)
next
  case (Some rs)
  then show ?thesis
    using assms by (simp add: generate_seasonal_data_def subscript_def months_loop_skip)
qed

subsection \<open>Evaluation on concrete inputs\<close>

lemmas gen_eval = generate_seasonal_data_def subscript_def select_calc_func_def loop_body_def
  sample_def uniform_def read_calc_func_def py_round_def round_half_even_def
  calc_kwh_summer_def calc_kwh_monsoon_def calc_kwh_winter_def feature_ranges_def

subsection \<open>Rows by position\<close>

lemma month_labels_Cons:
  "month_labels ((m, days) # rest) = replicate (nat days) m @ month_labels rest"
  by (simp add: month_labels_def)

lemma length_month_labels: "length (month_labels cal) = total_days cal"
  by (induction cal) (auto simp: month_labels_def total_days_def)

lemma total_days_Cons: "total_days ((m, days) # rest) = nat days + total_days rest"
  by (simp add: total_days_def)

lemma season_rows_nth:
  "i < total_days cal \<Longrightarrow>
     season_rows rs f s cal g ! i = row_of rs f s (month_labels cal ! i) (sdrop (5 * i) g)"
proof (induction cal arbitrary: g i)
  case Nil
  then show ?case by (simp add: total_days_def)
next
  case (Cons md cal)
  obtain m days where md: "md = (m, days)" by (cases md)
  show ?case
  proof (cases "i < nat days")
    case True
    then show ?thesis
      by (simp add: md month_labels_Cons nth_append month_rows_def)
  next
    case False
    with Cons.prems have "i - nat days < total_days cal"
      by (simp add: md total_days_Cons)
    from Cons.IH [OF this, of "sdrop (5 * nat days) g"] False show ?thesis
      by (simp add: md month_labels_Cons nth_append month_rows_def diff_mult_distrib2)
  qed
qed

lemma map_month_season_rows: "map month (season_rows rs f s cal g) = month_labels cal"
  by (rule nth_equalityI)
     (simp_all add: length_season_rows length_month_labels season_rows_nth row_of_def)

lemma map_season_season_rows:
  "map season (season_rows rs f s cal g) = replicate (total_days cal) s"
  by (rule nth_equalityI) (simp_all add: length_season_rows season_rows_nth row_of_def)

lemma row_of_cong:
  assumes "stake 5 a = stake 5 b"
  shows "row_of rs f s m a = row_of rs f s m b"
proof -
  have eq: "a !! k = b !! k" if "k < 5" for k
    using stake_nth [OF that, of a] stake_nth [OF that, of b] assms by simp
  have e0: "a !! 0 = b !! 0" by (rule eq) simp
  have e1: "a !! 1 = b !! 1" by (rule eq) simp
  have e2: "a !! 2 = b !! 2" by (rule eq) simp
  have e3: "a !! 3 = b !! 3" by (rule eq) simp
  have e4: "a !! 4 = b !! 4" by (rule eq) simp
  show ?thesis by (simp only: row_of_def e0 e1 e2 e3 e4)
qed

lemma generate_rows:
  assumes "generate_seasonal_data s fr md g = Inr (obs, g')" and "obs \<noteq> []"
  shows "\<exists>rs cal f. fr s = Some rs \<and> md s = Some cal \<and> declares rs
           \<and> select_calc_func s = Some f \<and> obs = season_rows rs f s cal g"
proof -
  from assms(1) obtain rs cal where h: "fr s = Some rs" "md s = Some cal"
    by (cases "fr s"; cases "md s") (auto simp: generate_seasonal_data_def subscript_def)
  then have m: "months_loop cal rs (select_calc_func s) s ([], g) = Inr (obs, g')"
    using assms(1) by (simp add: generate_seasonal_data_def subscript_def)
  have ok: "declares rs \<and> select_calc_func s \<noteq> None"
  proof (rule ccontr)
    assume n: "\<not> (declares rs \<and> select_calc_func s \<noteq> None)"
    show False
    proof (cases "total_days cal = 0")
      case True
      with m assms(2) show False by (simp add: months_loop_zero)
    next
      case False
      then have "0 < total_days cal" by simp
      from months_loop_fail [OF n this, of s "([], g)"] m show False by auto
    qed
  qed
  then obtain f where f: "select_calc_func s = Some f" by auto
  from generate_ok [where fr = fr and md = md and s = s and rs = rs and cal = cal
      and f = f and g = g] h f ok assms(1)
  have "obs = season_rows rs f s cal g" by simp
  with h ok f show ?thesis by blast
qed






lemma generated_row:
  assumes "generate_seasonal_data s fr md g = Inr (obs, g')" and "k < length obs"
  shows "\<exists>rs cal f. fr s = Some rs \<and> md s = Some cal \<and> declares rs
           \<and> select_calc_func s = Some f \<and> k < total_days cal \<and> length obs = total_days cal
           \<and> obs ! k = row_of rs f s (month_labels cal ! k) (sdrop (5 * k) g)"
proof -
  from assms(2) have "obs \<noteq> []" by auto
  from generate_rows [OF assms(1) this] obtain rs cal f where
    h: "fr s = Some rs" "md s = Some cal" "declares rs" "select_calc_func s = Some f"
      "obs = season_rows rs f s cal g" by blast
  from h(5) assms(2) have k: "k < total_days cal" by (simp add: length_season_rows)
  from season_rows_nth [OF k, of rs f s g] h k show ?thesis
    by (auto simp: length_season_rows)
qed

lemma day_sum_total_days:
  "\<forall>(m, days) \<in> set cal. 0 \<le> days \<Longrightarrow> int (total_days cal) = day_sum cal"
  by (induction cal) (auto simp: total_days_def day_sum_def)

subsection \<open>Sampled values and their range\<close>

lemma draw_range:
  assumes "rs name = Some (low, high)" and "low \<le> high" and "0 \<le> u" and "u < 1"
  shows "low \<le> draw rs name u \<and> draw rs name u \<le> high"
proof -
  have "0 \<le> (high - low) * u"
    using assms by (intro mult_nonneg_nonneg) simp_all
  moreover have "(high - low) * u \<le> high - low"
    using assms by (intro mult_right_le_one_le) simp_all
  ultimately show ?thesis using assms(1) by (simp add: draw_def)
qed

lemma rounded_draw_range:
  assumes "rs name = Some (low, high)" and "low \<le> high" and "0 \<le> u \<and> u < 1"
  shows "low - 1 / 100 \<le> py_round (draw rs name u) 2
           \<and> py_round (draw rs name u) 2 \<le> high + 1 / 100"
  using draw_range [where rs = rs and name = name and low = low and high = high and u = u]
    assms py_round2_error [of "draw rs name u"]
  by linarith

lemma feature_value_row:
  "feature_value (row_of rs f s m h) ''irradiance''
     = Some (py_round (draw rs ''irradiance'' (h !! 0)) 2)"
  "feature_value (row_of rs f s m h) ''humidity''
     = Some (py_round (draw rs ''humidity'' (h !! 1)) 2)"
  "feature_value (row_of rs f s m h) ''wind_speed''
     = Some (py_round (draw rs ''wind_speed'' (h !! 2)) 2)"
  "feature_value (row_of rs f s m h) ''ambient_temperature''
     = Some (py_round (draw rs ''ambient_temperature'' (h !! 3)) 2)"
  "feature_value (row_of rs f s m h) ''tilt_angle''
     = Some (py_round (draw rs ''tilt_angle'' (h !! 4)) 2)"
  by (simp_all add: feature_value_def row_of_def)

lemma feature_value_position:
  assumes "name \<in> set features"
  shows "\<exists>j. feature_value (row_of rs f s m h) name = Some (py_round (draw rs name (h !! j)) 2)"
proof -
  from assms have "name = ''irradiance'' \<or> name = ''humidity'' \<or> name = ''wind_speed''
      \<or> name = ''ambient_temperature'' \<or> name = ''tilt_angle''"
    unfolding features_def by (simp only: list.set insert_iff empty_iff simp_thms)
  then show ?thesis
  proof (elim disjE)
    assume 1: "name = ''irradiance''"
    show ?thesis unfolding 1 by (rule exI) (rule feature_value_row(1))
  next
    assume 2: "name = ''humidity''"
    show ?thesis unfolding 2 by (rule exI) (rule feature_value_row(2))
  next
    assume 3: "name = ''wind_speed''"
    show ?thesis unfolding 3 by (rule exI) (rule feature_value_row(3))
  next
    assume 4: "name = ''ambient_temperature''"
    show ?thesis unfolding 4 by (rule exI) (rule feature_value_row(4))
  next
    assume 5: "name = ''tilt_angle''"
    show ?thesis unfolding 5 by (rule exI) (rule feature_value_row(5))
  qed
qed




lemma mid_summer_run:
  "generate_seasonal_data ''summer'' feature_ranges [''summer'' \<mapsto> [(''March'', 1)]]
     (sconst (1 / 2)) = Inr ([mid_summer_row], sconst (1 / 2))"
  by (simp add: gen_eval mid_summer_row_def)

subsection \<open>The numbers stored in a row\<close>

lemma row_of_fields:
  "irradiance (row_of rs f s m h) = py_round (draw rs ''irradiance'' (h !! 0)) 2"
  "humidity (row_of rs f s m h) = py_round (draw rs ''humidity'' (h !! 1)) 2"
  "wind_speed (row_of rs f s m h) = py_round (draw rs ''wind_speed'' (h !! 2)) 2"
  "ambient_temperature (row_of rs f s m h)
     = py_round (draw rs ''ambient_temperature'' (h !! 3)) 2"
  "tilt_angle (row_of rs f s m h) = py_round (draw rs ''tilt_angle'' (h !! 4)) 2"
  "kwh (row_of rs f s m h)
     = py_round (f (draw rs ''irradiance'' (h !! 0)) (draw rs ''humidity'' (h !! 1))
         (draw rs ''wind_speed'' (h !! 2)) (draw rs ''ambient_temperature'' (h !! 3))
         (draw rs ''tilt_angle'' (h !! 4))) 2"
  by (simp_all add: row_of_def)

lemma sdrop_positions:
  "sdrop (5 * k) g !! 0 = g !! (5 * k)" "sdrop (5 * k) g !! 1 = g !! (5 * k + 1)"
  "sdrop (5 * k) g !! 2 = g !! (5 * k + 2)" "sdrop (5 * k) g !! 3 = g !! (5 * k + 3)"
  "sdrop (5 * k) g !! 4 = g !! (5 * k + 4)"
  by (simp_all only: sdrop_snth add_0_right)

lemma twin_example_run:
  "generate_seasonal_data ''summer'' feature_ranges [''summer'' \<mapsto> [(''March'', 2)]]
     twin_example
   = Inr ([\<lparr>irradiance = 600.02, humidity = 10.01, wind_speed = 0.01,
            ambient_temperature = 30, tilt_angle = 30, kwh = 152.51,
            season = ''summer'', month = ''March''\<rparr>,
           \<lparr>irradiance = 600.02, humidity = 10.01, wind_speed = 0.01,
            ambient_temperature = 30, tilt_angle = 30, kwh = 152.5,
            season = ''summer'', month = ''March''\<rparr>], sconst 0)"
  by (simp add: gen_eval twin_example_def eval_nat_numeral)

lemma rounded_first_misses_margin:
  "\<bar>py_round (calc_kwh_monsoon 350 85 2.97 27.5 25) 2
     - calc_kwh_monsoon 350.004 85 2.97 27.5 25\<bar> > 51 / 10000"
  by (simp add: calc_kwh_monsoon_def py_round_def round_half_even_def)

subsection \<open>The blocks of the combined table\<close>

lemma row_from_body:
  assumes "declares rs" and "i < total_days cal"
  shows "season (season_rows rs f s cal h ! i) = s
    \<and> loop_body rs (Some f) s (month (season_rows rs f s cal h ! i)) ([], sdrop (5 * i) h)
        = Inr ([season_rows rs f s cal h ! i], sdrop (5 * i + 5) h)"
proof -
  define m where "m = month_labels cal ! i"
  have r: "season_rows rs f s cal h ! i = row_of rs f s m (sdrop (5 * i) h)"
    unfolding m_def by (rule season_rows_nth [OF assms(2)])
  have sm: "season (row_of rs f s m (sdrop (5 * i) h)) = s"
    "month (row_of rs f s m (sdrop (5 * i) h)) = m"
    by (simp_all add: row_of_def)
  show ?thesis
    unfolding r sm using loop_body_ok [OF assms(1), of f s m "[]" "sdrop (5 * i) h"]
    by simp
qed

lemma source_block:
  assumes "s \<in> {''summer'', ''monsoon'', ''winter''}"
  shows "\<exists>obs rs cal. feature_ranges s = Some rs \<and> season_months_days s = Some cal
    \<and> generate_seasonal_data s feature_ranges season_months_days h
        = Inr (obs, sdrop (5 * declared_days s) h)
    \<and> length obs = declared_days s
    \<and> map season obs = replicate (declared_days s) s
    \<and> map month obs = month_labels cal
    \<and> (\<forall>i < declared_days s.
          loop_body rs (select_calc_func s) s (month (obs ! i)) ([], sdrop (5 * i) h)
            = Inr ([obs ! i], sdrop (5 * i + 5) h))"
proof -
  from source_season [OF assms] obtain rs cal f where
    h: "feature_ranges s = Some rs" "declares rs" "season_months_days s = Some cal"
       "select_calc_func s = Some f" by blast
  have d: "declared_days s = total_days cal" by (simp add: declared_days_def h(3))
  have gen: "generate_seasonal_data s feature_ranges season_months_days h =
           Inr (season_rows rs f s cal h, sdrop (5 * declared_days s) h)"
    using generate_ok [of feature_ranges s rs season_months_days cal f h] h by (simp add: d)
  have body: "\<forall>i < declared_days s.
          loop_body rs (select_calc_func s) s (month (season_rows rs f s cal h ! i))
             ([], sdrop (5 * i) h)
            = Inr ([season_rows rs f s cal h ! i], sdrop (5 * i + 5) h)"
    using row_from_body [OF h(2), of _ cal f s h] by (simp add: d h(4))
  show ?thesis
  proof (intro exI conjI)
    show "feature_ranges s = Some rs" by (rule h(1))
    show "season_months_days s = Some cal" by (rule h(3))
    show "generate_seasonal_data s feature_ranges season_months_days h =
           Inr (season_rows rs f s cal h, sdrop (5 * declared_days s) h)" by (rule gen)
    show "length (season_rows rs f s cal h) = declared_days s"
      by (simp add: length_season_rows d)
    show "map season (season_rows rs f s cal h) = replicate (declared_days s) s"
      by (simp add: map_season_season_rows d)
    show "map month (season_rows rs f s cal h) = month_labels cal"
      by (rule map_month_season_rows)
    show "\<forall>i < declared_days s.
          loop_body rs (select_calc_func s) s (month (season_rows rs f s cal h ! i))
             ([], sdrop (5 * i) h)
            = Inr ([season_rows rs f s cal h ! i], sdrop (5 * i + 5) h)" by (rule body)
  qed
qed

lemma source_month_labels:
  "season_months_days ''summer'' = Some cal \<Longrightarrow> month_labels cal =
     replicate 31 ''March'' @ replicate 30 ''April'' @ replicate 31 ''May''
       @ replicate 30 ''June''"
  "season_months_days ''monsoon'' = Some cal \<Longrightarrow> month_labels cal =
     replicate 31 ''July'' @ replicate 31 ''August'' @ replicate 30 ''September''
       @ replicate 31 ''October''"
  "season_months_days ''winter'' = Some cal \<Longrightarrow> month_labels cal =
     replicate 30 ''November'' @ replicate 31 ''December'' @ replicate 31 ''January''
       @ replicate 28 ''February''"
  by (auto simp: season_months_days_def month_labels_def)

section \<open>The claims\<close>







text \<open>
  C3, as stated, fails. The generator never compares the two ends of a range: with the
  humidity range \<open>(50, 10)\<close> and one day in the calendar it samples as usual and
  returns the row, and no error is raised.
\<close>

theorem inverted_range_counterexample:
  "(50 :: real) > 10
   \<and> generate_seasonal_data ''summer''
        [''summer'' \<mapsto>
          [''irradiance'' \<mapsto> (600, 1000), ''humidity'' \<mapsto> (50, 10), ''wind_speed'' \<mapsto> (0, 5),
           ''ambient_temperature'' \<mapsto> (30, 45), ''tilt_angle'' \<mapsto> (10, 40)]]
        [''summer'' \<mapsto> [(''March'', 1)]] (sconst (1 / 2))
     = Inr ([\<lparr>irradiance = 800, humidity = 30, wind_speed = 5 / 2, ambient_temperature = 75 / 2,
            tilt_angle = 25, kwh = 202.15, season = ''summer'', month = ''March''\<rparr>],
          sconst (1 / 2))"
  by (simp add: gen_eval)

text \<open>
  C3, amended. When a declared range has its minimum above its maximum,
  \<^verbatim>\<open>generate_seasonal_data\<close> raises no error: for one of the three seasons, with all
  five ranges declared, it takes its five samples for every day and returns one
  observation per day, as for any other range.
\<close>

theorem inverted_range_no_error:
  assumes "fr s = Some rs" and "declares rs" and "md s = Some cal"
    and "select_calc_func s = Some f"
    and "rs name = Some (low, high)" and "high < low"
  shows "\<exists>obs. generate_seasonal_data s fr md g = Inr (obs, sdrop (5 * total_days cal) g)
           \<and> length obs = total_days cal"
  using generate_ok [of fr s rs md cal f g] assms(1-4) by (simp add: length_season_rows)

theorem inverted_range_no_error_witness:
  "[''summer'' \<mapsto> inverted_summer] ''summer'' = Some inverted_summer
   \<and> declares inverted_summer
   \<and> [''summer'' \<mapsto> [(''March'', 2 :: int)]] ''summer'' = Some [(''March'', 2)]
   \<and> select_calc_func ''summer'' = Some calc_kwh_summer
   \<and> inverted_summer ''humidity'' = Some (50, 10) \<and> (10 :: real) < 50
   \<and> (\<exists>obs. generate_seasonal_data ''summer'' [''summer'' \<mapsto> inverted_summer]
                [''summer'' \<mapsto> [(''March'', 2)]] (sconst (1 / 2))
              = Inr (obs, sdrop (5 * total_days [(''March'', 2)]) (sconst (1 / 2)))
            \<and> length obs = total_days [(''March'', 2)])"
proof -
  have h1: "[''summer'' \<mapsto> inverted_summer] ''summer'' = Some inverted_summer" by simp
  have h2: "declares inverted_summer"
    by (simp add: declares_def features_def inverted_summer_def)
  have h3: "[''summer'' \<mapsto> [(''March'', 2 :: int)]] ''summer'' = Some [(''March'', 2)]" by simp
  have h4: "select_calc_func ''summer'' = Some calc_kwh_summer"
    by (simp add: select_calc_func_def)
  have h5: "inverted_summer ''humidity'' = Some (50, 10)" by (simp add: inverted_summer_def)
  have h6: "(10 :: real) < 50" by simp
  from inverted_range_no_error [where fr = "[''summer'' \<mapsto> inverted_summer]"
      and md = "[''summer'' \<mapsto> [(''March'', 2)]]" and g = "sconst (1 / 2)", OF h1 h2 h3 h4 h5 h6]
  show ?thesis using h1 h2 h3 h4 h5 h6 by blast
qed

text \<open>
  C4, as stated, fails. \<^verbatim>\<open>range(days)\<close> is empty for a negative \<open>days\<close>: the
  month with count \<open>-1\<close> is passed over in silence and the next month's row is
  returned.
\<close>

theorem negative_days_counterexample:
  "generate_seasonal_data ''summer'' feature_ranges
     [''summer'' \<mapsto> [(''March'', - 1), (''April'', 1)]] (sconst (1 / 2))
   = Inr ([\<lparr>irradiance = 800, humidity = 30, wind_speed = 5 / 2, ambient_temperature = 75 / 2,
            tilt_angle = 25, kwh = 202.15, season = ''summer'', month = ''April''\<rparr>],
          sconst (1 / 2))"
  by (simp add: gen_eval)

text \<open>
  C4, amended. A calendar entry with a negative day count raises no error and
  contributes no observation: the result is the one of the calendar without the entry,
  and on a complete configuration the other months' observations are returned.
\<close>

theorem negative_days_entry:
  assumes "md s = Some (c1 @ (m, days) # c2)" and "days < 0"
  shows "generate_seasonal_data s fr md g = generate_seasonal_data s fr (md(s \<mapsto> c1 @ c2)) g
    \<and> (\<forall>rs f. fr s = Some rs \<and> declares rs \<and> select_calc_func s = Some f \<longrightarrow>
          (\<exists>obs. generate_seasonal_data s fr md g =
                   Inr (obs, sdrop (5 * (total_days c1 + total_days c2)) g)
                 \<and> length obs = total_days c1 + total_days c2))"
proof -
  have td: "total_days (c1 @ (m, days) # c2) = total_days c1 + total_days c2"
    using assms(2) by (simp add: total_days_def)
  show ?thesis
    using generate_skip [of md s c1 m days c2 fr g] assms
      generate_ok [of fr s _ md "c1 @ (m, days) # c2" _ g]
    by (auto simp: td length_season_rows)
qed

theorem negative_days_entry_witness:
  "[''winter'' \<mapsto> [(''January'', 1), (''February'', - 28)]] ''winter''
     = Some ([(''January'', 1)] @ (''February'', - 28) # [])
   \<and> (- 28 :: int) < 0
   \<and> (\<exists>obs. generate_seasonal_data ''winter'' feature_ranges
          [''winter'' \<mapsto> [(''January'', 1), (''February'', - 28)]] (sconst (1 / 2))
         = Inr (obs, sconst (1 / 2))
       \<and> map month obs = [''January''])"
proof -
  have h: "[''winter'' \<mapsto> [(''January'', 1), (''February'', - 28)]] ''winter''
     = Some ([(''January'', 1)] @ (''February'', - 28) # [])" by simp
  have n: "(- 28 :: int) < 0" by simp
  have "generate_seasonal_data ''winter'' feature_ranges
          [''winter'' \<mapsto> [(''January'', 1), (''February'', - 28)]] (sconst (1 / 2))
        = generate_seasonal_data ''winter'' feature_ranges
          ([''winter'' \<mapsto> [(''January'', 1), (''February'', - 28)]]
             (''winter'' \<mapsto> [(''January'', 1)] @ [])) (sconst (1 / 2))"
    using h n negative_days_entry [where md = "[''winter'' \<mapsto> [(''January'', 1), (''February'', - 28)]]"
        and s = "''winter''" and ?c1.0 = "[(''January'', 1)]" and m = "''February''"
        and days = "- 28" and ?c2.0 = "[]" and fr = feature_ranges and g = "sconst (1 / 2)"]
    by blast
  then show ?thesis
    by (simp add: gen_eval)
qed

text \<open>
  C5, as stated, fails in its second half. The \<^verbatim>\<open>kwh\<close> of an observation is not
  determined by the five feature values of that observation: the two rows below have the
  same five features, \<open>600.02\<close>, \<open>10.01\<close>, \<open>0.01\<close>, \<open>30\<close> and \<open>30\<close>, and
  the scores \<open>152.51\<close> and \<open>152.50\<close>, because the raw irradiances behind them were
  \<open>600.024\<close> and \<open>600.02\<close>.
\<close>

theorem same_features_different_kwh:
  "generate_seasonal_data ''summer'' feature_ranges [''summer'' \<mapsto> [(''March'', 2)]]
     twin_example
   = Inr ([\<lparr>irradiance = 600.02, humidity = 10.01, wind_speed = 0.01,
            ambient_temperature = 30, tilt_angle = 30, kwh = 152.51,
            season = ''summer'', month = ''March''\<rparr>,
           \<lparr>irradiance = 600.02, humidity = 10.01, wind_speed = 0.01,
            ambient_temperature = 30, tilt_angle = 30, kwh = 152.5,
            season = ''summer'', month = ''March''\<rparr>], sconst 0)
   \<and> (152.51 :: real) \<noteq> 152.5"
  by (simp add: twin_example_run)

text \<open>
  C5, amended. For a season among the three with its five ranges declared,
  \<^verbatim>\<open>generate_seasonal_data\<close> returns one observation for every pass of the inner loop,
  which for a calendar of non-negative day counts is exactly the sum of the day counts;
  and the \<^verbatim>\<open>kwh\<close> of an observation is a function of the five raw values sampled for
  that observation and of nothing else: one function \<open>F\<close> gives the \<^verbatim>\<open>kwh\<close> of every
  row of every calendar and every random source from that row's own five raw samples, so
  that neither another observation nor the position or the month of the row has a part
  in it.
\<close>

theorem season_rows_own_samples:
  assumes "s \<in> {''summer'', ''monsoon'', ''winter''}" and "fr s = Some rs" and "declares rs"
  shows "\<exists>F. \<forall>md cal g. md s = Some cal \<longrightarrow>
           (\<exists>obs g'. generate_seasonal_data s fr md g = Inr (obs, g')
              \<and> length obs = total_days cal
              \<and> ((\<forall>(m, days) \<in> set cal. 0 \<le> days) \<longrightarrow> int (length obs) = day_sum cal)
              \<and> (\<forall>k < length obs.
                    kwh (obs ! k) =
                      F (draw rs ''irradiance'' (g !! (5 * k)))
                        (draw rs ''humidity'' (g !! (5 * k + 1)))
                        (draw rs ''wind_speed'' (g !! (5 * k + 2)))
                        (draw rs ''ambient_temperature'' (g !! (5 * k + 3)))
                        (draw rs ''tilt_angle'' (g !! (5 * k + 4)))))"
proof -
  from assms(1) obtain f where f: "select_calc_func s = Some f"
    unfolding select_calc_func_def by (elim insertE emptyE) simp_all
  define F where "F = (\<lambda>a b c d e. py_round (f a b c d e) 2)"
  have main: "\<exists>obs g'. generate_seasonal_data s fr md g = Inr (obs, g')
              \<and> length obs = total_days cal
              \<and> ((\<forall>(m, days) \<in> set cal. 0 \<le> days) \<longrightarrow> int (length obs) = day_sum cal)
              \<and> (\<forall>k < length obs.
                    kwh (obs ! k) =
                      F (draw rs ''irradiance'' (g !! (5 * k)))
                        (draw rs ''humidity'' (g !! (5 * k + 1)))
                        (draw rs ''wind_speed'' (g !! (5 * k + 2)))
                        (draw rs ''ambient_temperature'' (g !! (5 * k + 3)))
                        (draw rs ''tilt_angle'' (g !! (5 * k + 4))))"
    if cal: "md s = Some cal" for md cal g
  proof (rule exI, rule exI, intro conjI)
    show gen: "generate_seasonal_data s fr md g =
        Inr (season_rows rs f s cal g, sdrop (5 * total_days cal) g)"
      using generate_ok [where fr = fr and s = s and rs = rs and md = md and cal = cal
          and f = f and g = g] assms(2,3) cal f by simp
    show "length (season_rows rs f s cal g) = total_days cal"
      by (rule length_season_rows)
    show "(\<forall>(m, days) \<in> set cal. 0 \<le> days)
        \<longrightarrow> int (length (season_rows rs f s cal g)) = day_sum cal"
      using day_sum_total_days [of cal] by (simp only: length_season_rows) blast
    show "\<forall>k < length (season_rows rs f s cal g).
            kwh (season_rows rs f s cal g ! k) =
              F (draw rs ''irradiance'' (g !! (5 * k)))
                (draw rs ''humidity'' (g !! (5 * k + 1)))
                (draw rs ''wind_speed'' (g !! (5 * k + 2)))
                (draw rs ''ambient_temperature'' (g !! (5 * k + 3)))
                (draw rs ''tilt_angle'' (g !! (5 * k + 4)))"
    proof (intro allI impI)
      fix k assume "k < length (season_rows rs f s cal g)"
      then have k: "k < total_days cal" by (simp only: length_season_rows)
      show "kwh (season_rows rs f s cal g ! k) =
              F (draw rs ''irradiance'' (g !! (5 * k)))
                (draw rs ''humidity'' (g !! (5 * k + 1)))
                (draw rs ''wind_speed'' (g !! (5 * k + 2)))
                (draw rs ''ambient_temperature'' (g !! (5 * k + 3)))
                (draw rs ''tilt_angle'' (g !! (5 * k + 4)))"
        unfolding season_rows_nth [OF k] row_of_fields sdrop_positions F_def by (rule refl)
    qed
  qed
  show ?thesis
    by (rule exI [of _ F], intro allI impI) (rule main)
qed

theorem season_rows_own_samples_witness:
  "''monsoon'' \<in> {''summer'', ''monsoon'', ''winter''}
   \<and> [''monsoon'' \<mapsto> dim_monsoon] ''monsoon'' = Some dim_monsoon
   \<and> declares dim_monsoon
   \<and> [''monsoon'' \<mapsto> [(''July'', 2 :: int), (''August'', 0), (''September'', 1)]] ''monsoon''
       = Some [(''July'', 2), (''August'', 0), (''September'', 1)]
   \<and> (0 :: int) \<le> 2 \<and> (0 :: int) \<le> 0 \<and> (0 :: int) \<le> 1
   \<and> (\<exists>obs g'. generate_seasonal_data ''monsoon'' [''monsoon'' \<mapsto> dim_monsoon]
          [''monsoon'' \<mapsto> [(''July'', 2), (''August'', 0), (''September'', 1)]] (sconst (1 / 2))
          = Inr (obs, g')
        \<and> length obs = 3 \<and> kwh (obs ! 0) = kwh (obs ! 2))"
proof -
  have h1: "''monsoon'' \<in> {''summer'', ''monsoon'', ''winter''}" by simp
  have h2: "[''monsoon'' \<mapsto> dim_monsoon] ''monsoon'' = Some dim_monsoon" by simp
  have h3: "declares dim_monsoon" by (simp add: declares_def features_def dim_monsoon_def)
  have h4: "[''monsoon'' \<mapsto> [(''July'', 2 :: int), (''August'', 0), (''September'', 1)]] ''monsoon''
       = Some [(''July'', 2), (''August'', 0), (''September'', 1)]" by simp
  have h5: "\<forall>(m, days) \<in> set [(''July'', 2 :: int), (''August'', 0), (''September'', 1)]. 0 \<le> days"
    by simp
  have n: "(0 :: int) \<le> 2" "(0 :: int) \<le> 0" "(0 :: int) \<le> 1" by simp_all
  from season_rows_own_samples [where s = "''monsoon''" and fr = "[''monsoon'' \<mapsto> dim_monsoon]"
      and rs = dim_monsoon, OF h1 h2 h3]
  obtain F where F: "\<forall>md cal g. md ''monsoon'' = Some cal \<longrightarrow>
           (\<exists>obs g'. generate_seasonal_data ''monsoon'' [''monsoon'' \<mapsto> dim_monsoon] md g
                = Inr (obs, g')
              \<and> length obs = total_days cal
              \<and> ((\<forall>(m, days) \<in> set cal. 0 \<le> days) \<longrightarrow> int (length obs) = day_sum cal)
              \<and> (\<forall>k < length obs.
                    kwh (obs ! k) =
                      F (draw dim_monsoon ''irradiance'' (g !! (5 * k)))
                        (draw dim_monsoon ''humidity'' (g !! (5 * k + 1)))
                        (draw dim_monsoon ''wind_speed'' (g !! (5 * k + 2)))
                        (draw dim_monsoon ''ambient_temperature'' (g !! (5 * k + 3)))
                        (draw dim_monsoon ''tilt_angle'' (g !! (5 * k + 4)))))"
    by (rule exE)
  from F [THEN spec [where x = "[''monsoon'' \<mapsto> [(''July'', 2), (''August'', 0), (''September'', 1)]]"],
      THEN spec [where x = "[(''July'', 2), (''August'', 0), (''September'', 1)]"],
      THEN spec [where x = "sconst (1 / 2)"], THEN mp, OF h4] obtain obs g' where
    o: "generate_seasonal_data ''monsoon'' [''monsoon'' \<mapsto> dim_monsoon]
          [''monsoon'' \<mapsto> [(''July'', 2), (''August'', 0), (''September'', 1)]] (sconst (1 / 2))
          = Inr (obs, g')"
    and l: "(\<forall>(m, days) \<in> set [(''July'', 2 :: int), (''August'', 0), (''September'', 1)].
              0 \<le> days) \<longrightarrow>
            int (length obs) = day_sum [(''July'', 2), (''August'', 0), (''September'', 1)]"
    and r: "\<forall>k < length obs.
              kwh (obs ! k) =
                F (draw dim_monsoon ''irradiance'' (sconst (1 / 2) !! (5 * k)))
                  (draw dim_monsoon ''humidity'' (sconst (1 / 2) !! (5 * k + 1)))
                  (draw dim_monsoon ''wind_speed'' (sconst (1 / 2) !! (5 * k + 2)))
                  (draw dim_monsoon ''ambient_temperature'' (sconst (1 / 2) !! (5 * k + 3)))
                  (draw dim_monsoon ''tilt_angle'' (sconst (1 / 2) !! (5 * k + 4)))"
    by blast
  from l h5 have "int (length obs) = day_sum [(''July'', 2), (''August'', 0), (''September'', 1)]"
    by (rule mp)
  then have len: "length obs = 3" by (simp add: day_sum_def)
  from r len have "kwh (obs ! 0) = kwh (obs ! 2)" by simp
  with o len have c: "\<exists>obs g'. generate_seasonal_data ''monsoon'' [''monsoon'' \<mapsto> dim_monsoon]
          [''monsoon'' \<mapsto> [(''July'', 2), (''August'', 0), (''September'', 1)]] (sconst (1 / 2))
          = Inr (obs, g')
        \<and> length obs = 3 \<and> kwh (obs ! 0) = kwh (obs ! 2)"
    by (intro exI conjI)
  show ?thesis by (intro conjI) (rule h1 h2 h3 h4 n c)+
qed

text \<open>
  C6. The table of \<^verbatim>\<open>generate_all_seasons_data\<close> has as many rows as the three
  seasons' calendars declare days: 122 for summer, 123 for monsoon, 120 for winter,
  365 in all, whatever the random source.
\<close>

theorem generate_all_row_count:
  "\<exists>tbl g'. generate_all_seasons_data g = Inr (tbl, g')
     \<and> length tbl = declared_days ''summer'' + declared_days ''monsoon'' + declared_days ''winter''
     \<and> declared_days ''summer'' = 31 + 30 + 31 + 30
     \<and> declared_days ''monsoon'' = 31 + 31 + 30 + 31
     \<and> declared_days ''winter'' = 30 + 31 + 31 + 28
     \<and> length tbl = 365"
proof -
  obtain a where a: "generate_seasonal_data ''summer'' feature_ranges season_months_days g =
      Inr (a, sdrop (5 * declared_days ''summer'') g)" "length a = declared_days ''summer''"
    using generate_source [of "''summer''" g] by auto
  obtain b where b: "generate_seasonal_data ''monsoon'' feature_ranges season_months_days
      (sdrop (5 * declared_days ''summer'') g) =
      Inr (b, sdrop (5 * declared_days ''monsoon'') (sdrop (5 * declared_days ''summer'') g))"
      "length b = declared_days ''monsoon''"
    using generate_source [of "''monsoon''" "sdrop (5 * declared_days ''summer'') g"] by auto
  obtain c where c: "generate_seasonal_data ''winter'' feature_ranges season_months_days
      (sdrop (5 * declared_days ''monsoon'') (sdrop (5 * declared_days ''summer'') g)) =
      Inr (c, sdrop (5 * declared_days ''winter'')
        (sdrop (5 * declared_days ''monsoon'') (sdrop (5 * declared_days ''summer'') g)))"
      "length c = declared_days ''winter''"
    using generate_source [of "''winter''"
        "sdrop (5 * declared_days ''monsoon'') (sdrop (5 * declared_days ''summer'') g)"] by auto
  have "generate_all_seasons_data g = Inr (a @ b @ c, sdrop (5 * declared_days ''winter'')
        (sdrop (5 * declared_days ''monsoon'') (sdrop (5 * declared_days ''summer'') g)))"
    by (simp add: generate_all_seasons_data_def a(1) b(1) c(1) del: sdrop_add)
  then show ?thesis
    using a(2) b(2) c(2) by (simp add: declared_days_values del: sdrop_add)
qed

text \<open>
  C7. The combined table is the summer block, then the monsoon block, then the winter
  block, each the result of the season's own call on the random source as the call before
  left it. In each block the months come in the order of the calendar, every month filling
  as many consecutive rows as it has days, and the rows are in the order of generation:
  row \<open>k\<close> of the table is what one pass of the loop body makes of the random source
  advanced by the \<open>5k\<close> samples that the rows before it took.
\<close>

theorem combined_order:
  "\<exists>a b c ga gb gc.
      generate_seasonal_data ''summer'' feature_ranges season_months_days g = Inr (a, ga)
    \<and> generate_seasonal_data ''monsoon'' feature_ranges season_months_days ga = Inr (b, gb)
    \<and> generate_seasonal_data ''winter'' feature_ranges season_months_days gb = Inr (c, gc)
    \<and> generate_all_seasons_data g = Inr (a @ b @ c, gc)
    \<and> map season a = replicate 122 ''summer''
    \<and> map season b = replicate 123 ''monsoon''
    \<and> map season c = replicate 120 ''winter''
    \<and> map month a = replicate 31 ''March'' @ replicate 30 ''April'' @ replicate 31 ''May''
          @ replicate 30 ''June''
    \<and> map month b = replicate 31 ''July'' @ replicate 31 ''August''
          @ replicate 30 ''September'' @ replicate 31 ''October''
    \<and> map month c = replicate 30 ''November'' @ replicate 31 ''December''
          @ replicate 31 ''January'' @ replicate 28 ''February''
    \<and> (\<forall>k < 365. \<exists>rs. feature_ranges (season ((a @ b @ c) ! k)) = Some rs
          \<and> loop_body rs (select_calc_func (season ((a @ b @ c) ! k)))
               (season ((a @ b @ c) ! k)) (month ((a @ b @ c) ! k)) ([], sdrop (5 * k) g)
             = Inr ([(a @ b @ c) ! k], sdrop (5 * k + 5) g))"
proof -
  define ga where "ga = sdrop (5 * declared_days ''summer'') g"
  define gb where "gb = sdrop (5 * declared_days ''monsoon'') ga"
  define gc where "gc = sdrop (5 * declared_days ''winter'') gb"
  have ga: "sdrop n ga = sdrop (610 + n) g" for n
    by (simp add: ga_def declared_days_values)
  have gb: "sdrop n gb = sdrop (1225 + n) g" for n
    by (simp add: gb_def ga_def declared_days_values)
  from source_block [of "''summer''" g] obtain a rsa cala where
    a: "feature_ranges ''summer'' = Some rsa" "season_months_days ''summer'' = Some cala"
      "generate_seasonal_data ''summer'' feature_ranges season_months_days g = Inr (a, ga)"
      "length a = 122" "map season a = replicate 122 ''summer''"
      "map month a = month_labels cala"
      "\<forall>i < 122. loop_body rsa (select_calc_func ''summer'') ''summer'' (month (a ! i))
            ([], sdrop (5 * i) g) = Inr ([a ! i], sdrop (5 * i + 5) g)"
    unfolding ga_def declared_days_values by auto
  from source_block [of "''monsoon''" ga] obtain b rsb calb where
    b: "feature_ranges ''monsoon'' = Some rsb" "season_months_days ''monsoon'' = Some calb"
      "generate_seasonal_data ''monsoon'' feature_ranges season_months_days ga = Inr (b, gb)"
      "length b = 123" "map season b = replicate 123 ''monsoon''"
      "map month b = month_labels calb"
      "\<forall>i < 123. loop_body rsb (select_calc_func ''monsoon'') ''monsoon'' (month (b ! i))
            ([], sdrop (5 * i) ga) = Inr ([b ! i], sdrop (5 * i + 5) ga)"
    unfolding gb_def declared_days_values by auto
  from source_block [of "''winter''" gb] obtain c rsc calc where
    c: "feature_ranges ''winter'' = Some rsc" "season_months_days ''winter'' = Some calc"
      "generate_seasonal_data ''winter'' feature_ranges season_months_days gb = Inr (c, gc)"
      "length c = 120" "map season c = replicate 120 ''winter''"
      "map month c = month_labels calc"
      "\<forall>i < 120. loop_body rsc (select_calc_func ''winter'') ''winter'' (month (c ! i))
            ([], sdrop (5 * i) gb) = Inr ([c ! i], sdrop (5 * i + 5) gb)"
    unfolding gc_def declared_days_values by auto
  have all: "generate_all_seasons_data g = Inr (a @ b @ c, gc)"
    by (simp add: generate_all_seasons_data_def a(3) b(3) c(3))
  have sa: "season (a ! i) = ''summer''" if "i < 122" for i
    using arg_cong [OF a(5), of "\<lambda>xs. xs ! i"] that a(4) by simp
  have sb: "season (b ! i) = ''monsoon''" if "i < 123" for i
    using arg_cong [OF b(5), of "\<lambda>xs. xs ! i"] that b(4) by simp
  have sc: "season (c ! i) = ''winter''" if "i < 120" for i
    using arg_cong [OF c(5), of "\<lambda>xs. xs ! i"] that c(4) by simp
  have rows: "\<exists>rs. feature_ranges (season ((a @ b @ c) ! k)) = Some rs
          \<and> loop_body rs (select_calc_func (season ((a @ b @ c) ! k)))
               (season ((a @ b @ c) ! k)) (month ((a @ b @ c) ! k)) ([], sdrop (5 * k) g)
             = Inr ([(a @ b @ c) ! k], sdrop (5 * k + 5) g)" if k: "k < 365" for k
  proof -
    consider "k < 122" | "122 \<le> k" "k < 245" | "245 \<le> k" by linarith
    then show ?thesis
    proof cases
      case 1
      then have e: "(a @ b @ c) ! k = a ! k" by (simp add: nth_append a(4))
      from a(7) 1 have "loop_body rsa (select_calc_func ''summer'') ''summer'' (month (a ! k))
            ([], sdrop (5 * k) g) = Inr ([a ! k], sdrop (5 * k + 5) g)" by blast
      then show ?thesis unfolding e sa [OF 1] using a(1) by blast
    next
      case 2
      define i where "i = k - 122"
      from 2 have i: "i < 123" and ki: "k = 122 + i" by (simp_all add: i_def)
      have e: "(a @ b @ c) ! k = b ! i" by (simp add: nth_append a(4) b(4) ki i)
      from b(7) i have "loop_body rsb (select_calc_func ''monsoon'') ''monsoon'' (month (b ! i))
            ([], sdrop (5 * i) ga) = Inr ([b ! i], sdrop (5 * i + 5) ga)" by blast
      then have "loop_body rsb (select_calc_func ''monsoon'') ''monsoon'' (month (b ! i))
            ([], sdrop (5 * k) g) = Inr ([b ! i], sdrop (5 * k + 5) g)"
        by (simp add: ga ki add.commute add.left_commute)
      then show ?thesis unfolding e sb [OF i] using b(1) by blast
    next
      case 3
      define i where "i = k - 245"
      from 3 k have i: "i < 120" and ki: "k = 245 + i" by (simp_all add: i_def)
      have e: "(a @ b @ c) ! k = c ! i" by (simp add: nth_append a(4) b(4) c(4) ki i)
      from c(7) i have "loop_body rsc (select_calc_func ''winter'') ''winter'' (month (c ! i))
            ([], sdrop (5 * i) gb) = Inr ([c ! i], sdrop (5 * i + 5) gb)" by blast
      then have "loop_body rsc (select_calc_func ''winter'') ''winter'' (month (c ! i))
            ([], sdrop (5 * k) g) = Inr ([c ! i], sdrop (5 * k + 5) g)"
        by (simp add: gb ki add.commute add.left_commute)
      then show ?thesis unfolding e sc [OF i] using c(1) by blast
    qed
  qed
  show ?thesis
  proof (intro exI conjI)
    show "generate_seasonal_data ''summer'' feature_ranges season_months_days g = Inr (a, ga)"
      by (rule a(3))
    show "generate_seasonal_data ''monsoon'' feature_ranges season_months_days ga = Inr (b, gb)"
      by (rule b(3))
    show "generate_seasonal_data ''winter'' feature_ranges season_months_days gb = Inr (c, gc)"
      by (rule c(3))
    show "generate_all_seasons_data g = Inr (a @ b @ c, gc)" by (rule all)
    show "map season a = replicate 122 ''summer''" by (rule a(5))
    show "map season b = replicate 123 ''monsoon''" by (rule b(5))
    show "map season c = replicate 120 ''winter''" by (rule c(5))
    show "map month a = replicate 31 ''March'' @ replicate 30 ''April'' @ replicate 31 ''May''
          @ replicate 30 ''June''"
      unfolding a(6) by (rule source_month_labels(1) [OF a(2)])
    show "map month b = replicate 31 ''July'' @ replicate 31 ''August''
          @ replicate 30 ''September'' @ replicate 31 ''October''"
      unfolding b(6) by (rule source_month_labels(2) [OF b(2)])
    show "map month c = replicate 30 ''November'' @ replicate 31 ''December''
          @ replicate 31 ''January'' @ replicate 28 ''February''"
      unfolding c(6) by (rule source_month_labels(3) [OF c(2)])
    show "\<forall>k < 365. \<exists>rs. feature_ranges (season ((a @ b @ c) ! k)) = Some rs
          \<and> loop_body rs (select_calc_func (season ((a @ b @ c) ! k)))
               (season ((a @ b @ c) ! k)) (month ((a @ b @ c) ! k)) ([], sdrop (5 * k) g)
             = Inr ([(a @ b @ c) ! k], sdrop (5 * k + 5) g)"
      by (intro allI impI) (rule rows)
  qed
qed

theorem combined_order_witness:
  "\<exists>t g'. generate_all_seasons_data (sconst (1 / 2)) = Inr (t, g')
     \<and> (0 :: nat) < 365
     \<and> season (t ! 0) = ''summer'' \<and> month (t ! 0) = ''March''
     \<and> (\<exists>rs. feature_ranges (season (t ! 0)) = Some rs
          \<and> loop_body rs (select_calc_func (season (t ! 0))) (season (t ! 0)) (month (t ! 0))
               ([], sdrop (5 * 0) (sconst (1 / 2)))
             = Inr ([t ! 0], sdrop (5 * 0 + 5) (sconst (1 / 2))))"
proof -
  from combined_order [of "sconst (1 / 2)"] obtain a b c gc where
    t: "generate_all_seasons_data (sconst (1 / 2)) = Inr (a @ b @ c, gc)"
    and sa: "map season a = replicate 122 ''summer''"
    and ma: "map month a = replicate 31 ''March'' @ replicate 30 ''April''
          @ replicate 31 ''May'' @ replicate 30 ''June''"
    and rows: "\<forall>k < 365. \<exists>rs. feature_ranges (season ((a @ b @ c) ! k)) = Some rs
          \<and> loop_body rs (select_calc_func (season ((a @ b @ c) ! k)))
               (season ((a @ b @ c) ! k)) (month ((a @ b @ c) ! k))
               ([], sdrop (5 * k) (sconst (1 / 2)))
             = Inr ([(a @ b @ c) ! k], sdrop (5 * k + 5) (sconst (1 / 2)))"
    by blast
  have k: "(0 :: nat) < 365" by simp
  from sa have la: "length a = 122" by (metis length_map length_replicate)
  then have e: "(a @ b @ c) ! 0 = a ! 0" by (simp add: nth_append)
  have s0: "season ((a @ b @ c) ! 0) = ''summer''"
    unfolding e using arg_cong [OF sa, of "\<lambda>xs. xs ! 0"] la by simp
  have m0: "month ((a @ b @ c) ! 0) = ''March''"
    unfolding e using arg_cong [OF ma, of "\<lambda>xs. xs ! 0"] la by (simp add: nth_append)
  from rows [rule_format, of 0, OF k] have r0: "\<exists>rs. feature_ranges (season ((a @ b @ c) ! 0)) = Some rs
          \<and> loop_body rs (select_calc_func (season ((a @ b @ c) ! 0)))
               (season ((a @ b @ c) ! 0)) (month ((a @ b @ c) ! 0))
               ([], sdrop (5 * 0) (sconst (1 / 2)))
             = Inr ([(a @ b @ c) ! 0], sdrop (5 * 0 + 5) (sconst (1 / 2)))"
    .
  show ?thesis
    by (rule exI [of _ "a @ b @ c"], rule exI [of _ gc], intro conjI) (rule t k s0 m0 r0)+
qed

text \<open>
  C8. When a feature's range has \<open>min \<le> max\<close> and the random source gives unit samples
  in \<open>[0, 1)\<close>, that feature of every emitted observation lies between
  \<open>min - 0.01\<close> and \<open>max + 0.01\<close>.
\<close>

theorem features_within_range:
  assumes "generate_seasonal_data s fr md g = Inr (obs, g')" and "ob \<in> set obs"
    and "fr s = Some rs" and "name \<in> set features"
    and "rs name = Some (low, high)" and "low \<le> high"
    and "\<forall>u \<in> sset g. 0 \<le> u \<and> u < 1"
  shows "\<exists>v. feature_value ob name = Some v \<and> low - 1 / 100 \<le> v \<and> v \<le> high + 1 / 100"
proof -
  from assms(2) obtain k where k: "k < length obs" "ob = obs ! k"
    by (auto simp: in_set_conv_nth)
  from generated_row [OF assms(1) k(1)] obtain rs' cal f where
    g: "fr s = Some rs'" "obs ! k = row_of rs' f s (month_labels cal ! k) (sdrop (5 * k) g)"
    by blast
  from g(1) assms(3) have "rs' = rs" by simp
  with g(2) k(2) have ob: "ob = row_of rs f s (month_labels cal ! k) (sdrop (5 * k) g)"
    by simp
  from feature_value_position [OF assms(4)] obtain j where
    j: "feature_value ob name = Some (py_round (draw rs name (sdrop (5 * k) g !! j)) 2)"
    unfolding ob by blast
  have "sdrop (5 * k) g !! j \<in> sset g"
    using snth_sset [of g "5 * k + j"] by (simp only: sdrop_snth)
  with assms(7) have u: "0 \<le> sdrop (5 * k) g !! j \<and> sdrop (5 * k) g !! j < 1" by blast
  from rounded_draw_range [where rs = rs and name = name and low = low and high = high
        and u = "sdrop (5 * k) g !! j"] assms(5,6) u
  have "low - 1 / 100 \<le> py_round (draw rs name (sdrop (5 * k) g !! j)) 2
           \<and> py_round (draw rs name (sdrop (5 * k) g !! j)) 2 \<le> high + 1 / 100" by blast
  with j show ?thesis by blast
qed

theorem features_within_range_witness:
  "generate_seasonal_data ''summer'' feature_ranges [''summer'' \<mapsto> [(''March'', 1)]]
     (sconst (1 / 2)) = Inr ([mid_summer_row], sconst (1 / 2))
   \<and> mid_summer_row \<in> set [mid_summer_row]
   \<and> (\<exists>rs. feature_ranges ''summer'' = Some rs \<and> rs ''humidity'' = Some (10, 50))
   \<and> ''humidity'' \<in> set features
   \<and> (10 :: real) \<le> 50
   \<and> sset (sconst (1 / 2 :: real)) = {1 / 2} \<and> (0 :: real) \<le> 1 / 2 \<and> (1 / 2 :: real) < 1
   \<and> (\<exists>v. feature_value mid_summer_row ''humidity'' = Some v
          \<and> 10 - 1 / 100 \<le> v \<and> v \<le> 50 + 1 / 100)"
proof -
  note h1 = mid_summer_run
  have h2: "mid_summer_row \<in> set [mid_summer_row]" by simp
  obtain rs where h3: "feature_ranges ''summer'' = Some rs"
    and h5: "rs ''humidity'' = Some (10, 50)"
    by (simp add: feature_ranges_def)
  have h4: "''humidity'' \<in> set features" by (simp add: features_def)
  have h6: "(10 :: real) \<le> 50" by simp
  have h7: "\<forall>u \<in> sset (sconst (1 / 2 :: real)). 0 \<le> u \<and> u < 1" by simp
  note c = features_within_range [where fr = feature_ranges and rs = rs, OF h1 h2 h3 h4 h5 h6 h7]
  from h3 h5 have e: "\<exists>rs. feature_ranges ''summer'' = Some rs \<and> rs ''humidity'' = Some (10, 50)"
    by blast
  have n: "sset (sconst (1 / 2 :: real)) = {1 / 2}" "(0 :: real) \<le> 1 / 2"
    "(1 / 2 :: real) < 1" by simp_all
  show ?thesis by (intro conjI) (rule h1 h2 e h4 h6 n c)+
qed

text \<open>
  C9. A calendar entry with day count 0 contributes no observation and causes no error:
  the result is the one of the calendar without the entry, and on a complete
  configuration the other months' observations are returned.
\<close>

theorem zero_days_entry:
  assumes "md s = Some (c1 @ (m, 0) # c2)"
  shows "generate_seasonal_data s fr md g = generate_seasonal_data s fr (md(s \<mapsto> c1 @ c2)) g
    \<and> (\<forall>rs f. fr s = Some rs \<and> declares rs \<and> select_calc_func s = Some f \<longrightarrow>
          (\<exists>obs. generate_seasonal_data s fr md g =
                   Inr (obs, sdrop (5 * (total_days c1 + total_days c2)) g)
                 \<and> length obs = total_days c1 + total_days c2))"
proof -
  have td: "total_days (c1 @ (m, 0) # c2) = total_days c1 + total_days c2"
    by (simp add: total_days_def)
  show ?thesis
    using generate_skip [of md s c1 m 0 c2 fr g] assms
      generate_ok [of fr s _ md "c1 @ (m, 0) # c2" _ g]
    by (auto simp: td length_season_rows)
qed

theorem zero_days_entry_witness:
  "[''summer'' \<mapsto> [(''March'', 2), (''April'', 0), (''May'', 1)]] ''summer''
     = Some ([(''March'', 2)] @ (''April'', 0) # [(''May'', 1)])
   \<and> (\<exists>obs. generate_seasonal_data ''summer'' feature_ranges
          [''summer'' \<mapsto> [(''March'', 2), (''April'', 0), (''May'', 1)]] (sconst (1 / 2))
         = Inr (obs, sconst (1 / 2))
       \<and> map month obs = [''March'', ''March'', ''May''])"
proof -
  have h: "[''summer'' \<mapsto> [(''March'', 2), (''April'', 0), (''May'', 1)]] ''summer''
     = Some ([(''March'', 2)] @ (''April'', 0) # [(''May'', 1)])" by simp
  have "generate_seasonal_data ''summer'' feature_ranges
          [''summer'' \<mapsto> [(''March'', 2), (''April'', 0), (''May'', 1)]] (sconst (1 / 2))
        = generate_seasonal_data ''summer'' feature_ranges
          ([''summer'' \<mapsto> [(''March'', 2), (''April'', 0), (''May'', 1)]]
             (''summer'' \<mapsto> [(''March'', 2)] @ [(''May'', 1)])) (sconst (1 / 2))"
    using h zero_days_entry [where md = "[''summer'' \<mapsto> [(''March'', 2), (''April'', 0), (''May'', 1)]]"
        and s = "''summer''" and ?c1.0 = "[(''March'', 2)]" and m = "''April''"
        and ?c2.0 = "[(''May'', 1)]" and fr = feature_ranges and g = "sconst (1 / 2)"]
    by blast
  then show ?thesis
    by (simp add: gen_eval eval_nat_numeral)
qed

text \<open>
  C10, as stated, fails in its second half. The unassigned \<^verbatim>\<open>calc_func\<close> is read only
  inside the inner loop: for a season outside the three that both tables declare, with no
  positive day count, the call returns the empty table instead of failing.
\<close>

theorem unknown_season_counterexample:
  "''autumn'' \<notin> {''summer'', ''monsoon'', ''winter''}
   \<and> generate_seasonal_data ''autumn''
        (feature_ranges(''autumn'' \<mapsto> [''irradiance'' \<mapsto> (200, 800)]))
        (season_months_days(''autumn'' \<mapsto> [(''October'', 0)])) (sconst (1 / 2))
     = Inr ([], sconst (1 / 2))"
  by (simp add: generate_seasonal_data_def subscript_def)

text \<open>
  C10, amended. For a season among summer, monsoon and winter the selection chain assigns
  a scoring function and the unbound-variable error never occurs. For any other season no
  scoring function is assigned, and no observation is ever returned: with the tables of
  the source, or any tables of which one does not declare the season, the call fails with
  \<^verbatim>\<open>KeyError\<close> on the season; with tables that declare it, it fails as soon as one
  month has a positive day count (with the unbound-variable error when the five ranges
  are declared), and returns the empty table only when no month has one.
\<close>

theorem season_selection:
  "(s \<in> {''summer'', ''monsoon'', ''winter''} \<longrightarrow>
      select_calc_func s \<noteq> None
      \<and> generate_seasonal_data s fr md g \<noteq> Inl (UnboundLocalError ''calc_func''))
   \<and> (s \<notin> {''summer'', ''monsoon'', ''winter''} \<longrightarrow>
      select_calc_func s = None
      \<and> generate_seasonal_data s feature_ranges season_months_days g = Inl (KeyError s)
      \<and> (fr s = None \<or> md s = None \<longrightarrow> generate_seasonal_data s fr md g = Inl (KeyError s))
      \<and> (\<forall>rs cal. fr s = Some rs \<and> md s = Some cal \<longrightarrow>
            (if total_days cal = 0 then generate_seasonal_data s fr md g = Inr ([], g)
             else \<exists>e. generate_seasonal_data s fr md g = Inl e
                    \<and> (declares rs \<longrightarrow> e = UnboundLocalError ''calc_func''))))"
proof (intro conjI impI)
  assume s: "s \<in> {''summer'', ''monsoon'', ''winter''}"
  then obtain f where f: "select_calc_func s = Some f"
    by (auto simp: select_calc_func_def)
  then show "select_calc_func s \<noteq> None" by simp
  show "generate_seasonal_data s fr md g \<noteq> Inl (UnboundLocalError ''calc_func'')"
  proof
    assume a: "generate_seasonal_data s fr md g = Inl (UnboundLocalError ''calc_func'')"
    then obtain rs cal where "fr s = Some rs" "md s = Some cal"
      by (cases "fr s"; cases "md s") (auto simp: generate_seasonal_data_def subscript_def)
    with a f have "months_loop cal rs (Some f) s ([], g) = Inl (UnboundLocalError ''calc_func'')"
      by (simp add: generate_seasonal_data_def subscript_def)
    from months_loop_key_error [OF this] show False by simp
  qed
next
  assume s: "s \<notin> {''summer'', ''monsoon'', ''winter''}"
  then show n: "select_calc_func s = None" by (simp add: select_calc_func_def)
  from s have "feature_ranges s = None" by (simp add: feature_ranges_def)
  then show "generate_seasonal_data s feature_ranges season_months_days g = Inl (KeyError s)"
    by (simp add: generate_seasonal_data_def subscript_def)
  show "generate_seasonal_data s fr md g = Inl (KeyError s)" if "fr s = None \<or> md s = None"
    using that by (cases "fr s") (auto simp: generate_seasonal_data_def subscript_def)
  show "\<forall>rs cal. fr s = Some rs \<and> md s = Some cal \<longrightarrow>
            (if total_days cal = 0 then generate_seasonal_data s fr md g = Inr ([], g)
             else \<exists>e. generate_seasonal_data s fr md g = Inl e
                    \<and> (declares rs \<longrightarrow> e = UnboundLocalError ''calc_func''))"
  proof (intro allI impI)
    fix rs cal
    assume h: "fr s = Some rs \<and> md s = Some cal"
    then have g: "generate_seasonal_data s fr md g = months_loop cal rs None s ([], g)"
      by (simp add: generate_seasonal_data_def subscript_def n)
    show "if total_days cal = 0 then generate_seasonal_data s fr md g = Inr ([], g)
             else \<exists>e. generate_seasonal_data s fr md g = Inl e
                    \<and> (declares rs \<longrightarrow> e = UnboundLocalError ''calc_func'')"
    proof (cases "total_days cal = 0")
      case True
      then show ?thesis by (simp add: g months_loop_zero)
    next
      case False
      then have "0 < total_days cal" by simp
      from months_loop_fail [of rs None cal s "([], g)", OF _ this] False
      show ?thesis by (simp add: g)
    qed
  qed
qed

theorem season_selection_witness:
  "''winter'' \<in> {''summer'', ''monsoon'', ''winter''}
   \<and> select_calc_func ''winter'' \<noteq> None
   \<and> generate_seasonal_data ''winter'' feature_ranges season_months_days (sconst 0)
       \<noteq> Inl (UnboundLocalError ''calc_func'')
   \<and> ''autumn'' \<notin> {''summer'', ''monsoon'', ''winter''}
   \<and> select_calc_func ''autumn'' = None
   \<and> generate_seasonal_data ''autumn'' feature_ranges season_months_days (sconst 0)
       = Inl (KeyError ''autumn'')
   \<and> [''autumn'' \<mapsto> inverted_summer] ''autumn'' = Some inverted_summer
   \<and> [''autumn'' \<mapsto> [(''October'', 31 :: int)]] ''autumn'' = Some [(''October'', 31)]
   \<and> total_days [(''October'', 31)] \<noteq> 0 \<and> declares inverted_summer
   \<and> generate_seasonal_data ''autumn'' [''autumn'' \<mapsto> inverted_summer]
        [''autumn'' \<mapsto> [(''October'', 31)]] (sconst 0) = Inl (UnboundLocalError ''calc_func'')"
proof -
  have w: "''winter'' \<in> {''summer'', ''monsoon'', ''winter''}" by simp
  have a: "''autumn'' \<notin> {''summer'', ''monsoon'', ''winter''}" by simp
  have h1: "[''autumn'' \<mapsto> inverted_summer] ''autumn'' = Some inverted_summer" by simp
  have h2: "[''autumn'' \<mapsto> [(''October'', 31 :: int)]] ''autumn'' = Some [(''October'', 31)]"
    by simp
  have h3: "total_days [(''October'', 31)] \<noteq> 0" by (simp add: total_days_def)
  have h4: "declares inverted_summer"
    by (simp add: declares_def features_def inverted_summer_def)
  note W = season_selection [where s = "''winter''" and fr = feature_ranges
      and md = season_months_days and g = "sconst 0"]
  note A = season_selection [where s = "''autumn''" and fr = "[''autumn'' \<mapsto> inverted_summer]"
      and md = "[''autumn'' \<mapsto> [(''October'', 31)]]" and g = "sconst 0"]
  note W' = W [THEN conjunct1, THEN mp, OF w]
  note c1 = W' [THEN conjunct1]
  note c2 = W' [THEN conjunct2]
  note A' = A [THEN conjunct2, THEN mp, OF a]
  note c3 = A' [THEN conjunct1]
  note c4 = A' [THEN conjunct2, THEN conjunct1]
  note c5 = A' [THEN conjunct2, THEN conjunct2, THEN conjunct2, THEN spec, THEN spec, THEN mp,
      OF conjI [OF h1 h2]]
  have c6: "generate_seasonal_data ''autumn'' [''autumn'' \<mapsto> inverted_summer]
        [''autumn'' \<mapsto> [(''October'', 31)]] (sconst 0) = Inl (UnboundLocalError ''calc_func'')"
    using c5 h3 h4 by simp
  show ?thesis
    by (intro conjI) (rule w a h1 h2 h3 h4 c1 c2 c3 c4 c6)+
qed

end
